theory Spec2Isabelle
  imports Main "HOL-Library.Sublist"
begin

section \<open>Python strings\<close>

text \<open>
  A Python \<open>str\<close> is a sequence of code points. The model uses \<^typ>\<open>string\<close>, whose
  characters carry eight bits, and reads a character as the code point of the same number:
  the development covers the input texts whose code points are below 256 (ASCII and the
  Latin-1 supplement). On that range \<open>str.lower\<close> works character by character: it adds 32
  to \<open>A\<close>..\<open>Z\<close> (65..90) and to the upper-case letters 192..222 of Latin-1, the
  multiplication sign 215 excepted, and leaves every other code point alone.
\<close>

definition is_upper :: "char \<Rightarrow> bool" where
  "is_upper c =
     (let n = (of_char c :: nat)
      in (65 \<le> n \<and> n \<le> 90) \<or> (192 \<le> n \<and> n \<le> 222 \<and> n \<noteq> 215))"

definition lower_char :: "char \<Rightarrow> char" where
  "lower_char c = (if is_upper c then char_of (of_char c + (32 :: nat)) else c)"

definition lower :: "string \<Rightarrow> string" where
  "lower s = map lower_char s"

text \<open>
  \<open>sub in s\<close> on strings: \<open>sub\<close> occurs in \<open>s\<close> as a contiguous block. The empty string
  occurs in every string.
\<close>

fun py_in :: "string \<Rightarrow> string \<Rightarrow> bool" where
  "py_in sub [] = (sub = [])"
| "py_in sub (c # cs) = (prefix sub (c # cs) \<or> py_in sub cs)"

text \<open>
  \<open>str.strip()\<close> with no argument drops leading and trailing white space. Below 256 the
  white-space code points of Python are 9..13, 28..32, 133 and 160.
\<close>

definition is_space :: "char \<Rightarrow> bool" where
  "is_space c =
     (let n = (of_char c :: nat)
      in (9 \<le> n \<and> n \<le> 13) \<or> (28 \<le> n \<and> n \<le> 32) \<or> n = 133 \<or> n = 160)"

definition strip :: "string \<Rightarrow> string" where
  "strip s = rev (dropWhile is_space (rev (dropWhile is_space s)))"

section \<open>Module state and the data model\<close>

text \<open>
  The values of the mock rows are strings and integers; the values of the \<open>breakdown\<close>
  dictionary are strings and a list of strings. Dictionaries are association lists in the
  order of their literals; \<open>d[k]\<close> and \<open>d.get(k, default)\<close> go through \<^const>\<open>map_of\<close>.
\<close>

datatype pyval = PStr string | PInt int | PList "pyval list"

type_synonym row = "(string \<times> pyval) list"

text \<open>
  The two module-level dictionaries are the process-wide state. Every function that runs
  in the process takes the state and returns it, so that what a function reads and writes
  is visible in its definition.
\<close>

record globals =
  mock_db :: "(string \<times> (string \<times> string list) list) list"
  mock_responses :: "(string \<times> row list) list"

definition sales_rows :: "row list" where
  "sales_rows =
     [[(''date'', PStr ''2025-03-01''), (''amount'', PInt 1000),
       (''region'', PStr ''North''), (''product'', PStr ''Widget'')],
      [(''date'', PStr ''2025-03-02''), (''amount'', PInt 1500),
       (''region'', PStr ''South''), (''product'', PStr ''Gadget'')]]"

definition customers_rows :: "row list" where
  "customers_rows =
     [[(''id'', PInt 1), (''name'', PStr ''John Doe''),
       (''email'', PStr ''john@example.com''), (''signup_date'', PStr ''2025-01-01'')],
      [(''id'', PInt 2), (''name'', PStr ''Jane Smith''),
       (''email'', PStr ''jane@example.com''), (''signup_date'', PStr ''2025-02-01'')]]"

definition module_globals :: globals where
  "module_globals =
     \<lparr>mock_db =
        [(''sales'', [(''columns'', [''date'', ''amount'', ''region'', ''product''])]),
         (''customers'', [(''columns'', [''id'', ''name'', ''email'', ''signup_date''])])],
      mock_responses = [(''sales'', sales_rows), (''customers'', customers_rows)]\<rparr>"

record QueryRequest =
  query :: string

record QueryResponse =
  original_query :: string
  translated_sql :: string
  results :: "row list"

record ExplainResponse =
  original_query :: string
  breakdown :: "(string \<times> pyval) list"
  translated_sql :: string

record ValidateResponse =
  query :: string
  is_valid :: bool
  message :: string

record HTTPBasicCredentials =
  username :: string
  password :: string

datatype HTTPException = HTTPException (status_code: nat) (detail: string)

section \<open>Authentication\<close>

definition verify_credentials :: "HTTPBasicCredentials \<Rightarrow> HTTPException + bool" where
  "verify_credentials credentials =
     (let correct_username = ''admin'';
          correct_password = ''secret123''
      in if username credentials \<noteq> correct_username \<or> password credentials \<noteq> correct_password
         then Inl (HTTPException 401 ''Invalid credentials'')
         else Inr True)"

section \<open>The query classifier\<close>

text \<open>
  The branches of the source either return or fall through to the last line; the model
  computes the early return as an option, \<open>None\<close> standing for falling through.
\<close>

definition parse_query_to_sql :: "string \<Rightarrow> globals \<Rightarrow> (string \<times> string) \<times> globals" where
  "parse_query_to_sql query0 g =
     (let query = lower query0;
          early =
            (if py_in ''sales'' query then
               (let table = ''sales'' in
                if py_in ''by region'' query then
                  Some (''SELECT region, SUM(amount) FROM sales GROUP BY region'', table)
                else if py_in ''total'' query then
                  Some (''SELECT SUM(amount) FROM sales'', table)
                else if py_in ''by product'' query then
                  Some (''SELECT product, SUM(amount) FROM sales GROUP BY product'', table)
                else None)
             else if py_in ''customer'' query \<or> py_in ''customers'' query then
               (let table = ''customers'' in
                if py_in ''count'' query then
                  Some (''SELECT COUNT(*) FROM customers'', table)
                else if py_in ''new'' query \<or> py_in ''recent'' query then
                  Some (''SELECT * FROM customers ORDER BY signup_date DESC'', table)
                else None)
             else None)
      in case early of
           Some r \<Rightarrow> (r, g)
         | None \<Rightarrow> ((''SELECT * FROM sales'', ''sales''), g))"

section \<open>The handlers\<close>

text \<open>
  The handlers are the functions of the source, with the value of the \<open>auth\<close> dependency
  as a parameter. Nothing inside the \<open>try\<close> block of \<open>process_query\<close> can raise (the
  classifier returns on every string and \<open>dict.get\<close> has a default), so its \<open>except\<close>
  clause has no branch in the model; the result type keeps the error side.
\<close>

definition process_query ::
  "QueryRequest \<Rightarrow> bool \<Rightarrow> globals \<Rightarrow> (HTTPException + QueryResponse) \<times> globals" where
  "process_query request auth g =
     (let ((sql_query, table), g1) = parse_query_to_sql (QueryRequest.query request) g
      in (Inr \<lparr>QueryResponse.original_query = QueryRequest.query request,
               QueryResponse.translated_sql = sql_query,
               results = (case map_of (mock_responses g1) table of
                            Some rows \<Rightarrow> rows
                          | None \<Rightarrow> [])\<rparr>,
          g1))"

text \<open>
  \<open>str(e)\<close> of the \<open>KeyError\<close> that \<open>d[k]\<close> raises is the \<open>repr\<close> of the key: the key
  between single quotes, for a key with no quote, backslash or unprintable character in it
  (the classifier's table names and \<open>columns\<close> are such keys).
\<close>

definition key_error_str :: "string \<Rightarrow> string" where
  "key_error_str k = [CHR 0x27] @ k @ [CHR 0x27]"

definition explain_query ::
  "QueryRequest \<Rightarrow> bool \<Rightarrow> globals \<Rightarrow> (HTTPException + ExplainResponse) \<times> globals" where
  "explain_query request auth g =
     (let ((sql_query, table), g1) = parse_query_to_sql (QueryRequest.query request) g
      in case map_of (mock_db g1) table of
           None \<Rightarrow>
             (Inl (HTTPException 400 (''Query explanation failed: '' @ key_error_str table)), g1)
         | Some descriptor \<Rightarrow>
             (case map_of descriptor ''columns'' of
                None \<Rightarrow>
                  (Inl (HTTPException 400
                     (''Query explanation failed: '' @ key_error_str ''columns'')), g1)
              | Some cols \<Rightarrow>
                  (Inr \<lparr>ExplainResponse.original_query = QueryRequest.query request,
                        breakdown =
                          [(''detected_table'', PStr table),
                           (''query_type'',
                              PStr (if py_in ''SUM'' sql_query then ''aggregation''
                                    else ''selection'')),
                           (''columns'', PList (map PStr cols))],
                        ExplainResponse.translated_sql = sql_query\<rparr>,
                   g1)))"

definition validate_query ::
  "QueryRequest \<Rightarrow> bool \<Rightarrow> globals \<Rightarrow> ValidateResponse \<times> globals" where
  "validate_query request auth g =
     (let query = lower (QueryRequest.query request);
          has_valid_table = list_ex (\<lambda>table. py_in table query) (map fst (mock_db g))
      in if strip query = [] then
           (\<lparr>ValidateResponse.query = QueryRequest.query request, is_valid = False,
             message = ''Query cannot be empty''\<rparr>, g)
         else if \<not> has_valid_table then
           (\<lparr>ValidateResponse.query = QueryRequest.query request, is_valid = False,
             message = ''No valid table reference found''\<rparr>, g)
         else
           (\<lparr>ValidateResponse.query = QueryRequest.query request, is_valid = True,
             message = ''Query appears valid''\<rparr>, g))"

definition health_check :: "globals \<Rightarrow> (string \<times> string) list \<times> globals" where
  "health_check g = ([(''status'', ''healthy'')], g)"

section \<open>The routes\<close>

text \<open>
  A route with \<open>Depends(verify_credentials)\<close> runs the dependency on the credentials of
  the request first; when it raises, the exception is the response and the handler is not
  called. \<open>GET /health\<close> declares no dependency and takes no credentials.
\<close>

definition route_query ::
  "HTTPBasicCredentials \<Rightarrow> QueryRequest \<Rightarrow> globals \<Rightarrow> (HTTPException + QueryResponse) \<times> globals" where
  "route_query credentials request g =
     (case verify_credentials credentials of
        Inl e \<Rightarrow> (Inl e, g)
      | Inr auth \<Rightarrow> process_query request auth g)"

definition route_explain ::
  "HTTPBasicCredentials \<Rightarrow> QueryRequest \<Rightarrow> globals \<Rightarrow> (HTTPException + ExplainResponse) \<times> globals" where
  "route_explain credentials request g =
     (case verify_credentials credentials of
        Inl e \<Rightarrow> (Inl e, g)
      | Inr auth \<Rightarrow> explain_query request auth g)"

definition route_validate ::
  "HTTPBasicCredentials \<Rightarrow> QueryRequest \<Rightarrow> globals \<Rightarrow> (HTTPException + ValidateResponse) \<times> globals" where
  "route_validate credentials request g =
     (case verify_credentials credentials of
        Inl e \<Rightarrow> (Inl e, g)
      | Inr auth \<Rightarrow> (case validate_query request auth g of (resp, g1) \<Rightarrow> (Inr resp, g1)))"

definition route_health :: "globals \<Rightarrow> (string \<times> string) list \<times> globals" where
  "route_health g = health_check g"

section \<open>Facts about the string operations\<close>

lemma py_in_sublist: "py_in sub s = sublist sub s"
  by (induction s) (auto simp: sublist_Cons_right)

lemma py_in_trans: "py_in a b \<Longrightarrow> py_in b c \<Longrightarrow> py_in a c"
  unfolding py_in_sublist by (rule sublist_order.order_trans)

lemma customers_has_customer: "py_in ''customers'' q \<Longrightarrow> py_in ''customer'' q"
proof -
  have "py_in ''customer'' ''customers''" by simp
  then show "py_in ''customers'' q \<Longrightarrow> py_in ''customer'' q"
    by (rule py_in_trans)
qed

lemma lower_char_idem: "lower_char (lower_char c) = lower_char c"
  by (auto simp: lower_char_def is_upper_def Let_def)

lemma lower_idem: "lower (lower s) = lower s"
  by (simp add: lower_def lower_char_idem)

lemma strip_empty_iff: "strip s = [] \<longleftrightarrow> list_all is_space s"
proof
  assume "list_all is_space s"
  then have "dropWhile is_space s = []"
    by (simp add: list_all_iff)
  then show "strip s = []"
    unfolding strip_def by (simp del: dropWhile_eq_Nil_conv)
next
  assume e: "strip s = []"
  have "dropWhile is_space s = []"
  proof (rule ccontr)
    assume n: "dropWhile is_space s \<noteq> []"
    then have "\<not> is_space (hd (dropWhile is_space s))"
      by (rule hd_dropWhile)
    moreover have "hd (dropWhile is_space s) \<in> set (dropWhile is_space s)"
      using n by simp
    moreover have "\<forall>x \<in> set (dropWhile is_space s). is_space x"
      using e by (simp add: strip_def)
    ultimately show False by blast
  qed
  then show "list_all is_space s"
    by (simp add: list_all_iff)
qed

lemma eq_char_of_iff: "c = char_of n \<longleftrightarrow> take_bit 8 n = of_char c"
  using char_of_eq_iff [of n c] by auto

lemmas lower_eval = lower_def lower_char_def is_upper_def char_of_eq_iff eq_char_of_iff

lemma parse_query_to_sql_state: "snd (parse_query_to_sql s g) = g"
  by (simp add: parse_query_to_sql_def Let_def split: option.split)

lemma parse_query_to_sql_cases:
  "fst (parse_query_to_sql s g) \<in>
     {(''SELECT region, SUM(amount) FROM sales GROUP BY region'', ''sales''),
      (''SELECT SUM(amount) FROM sales'', ''sales''),
      (''SELECT product, SUM(amount) FROM sales GROUP BY product'', ''sales''),
      (''SELECT COUNT(*) FROM customers'', ''customers''),
      (''SELECT * FROM customers ORDER BY signup_date DESC'', ''customers''),
      (''SELECT * FROM sales'', ''sales'')}"
  by (simp add: parse_query_to_sql_def Let_def)

section \<open>The classifier's results\<close>

text \<open>
  C1. On every input string, the empty one included, \<open>parse_query_to_sql\<close> returns a
  pair of a statement and a table: the statement is not empty, the table is \<open>sales\<close> or
  \<open>customers\<close>, and it is a key of \<open>mock_responses\<close> and of \<open>mock_db\<close>. The definition
  is not recursive and \<^const>\<open>py_in\<close> recurses on the text, so the function returns on
  every input.
\<close>

theorem parse_query_to_sql_total:
  "\<exists>stmt table. fst (parse_query_to_sql s g) = (stmt, table) \<and> stmt \<noteq> [] \<and>
     (table = ''sales'' \<or> table = ''customers'') \<and>
     table \<in> set (map fst (mock_responses module_globals)) \<and>
     table \<in> set (map fst (mock_db module_globals))"
  using parse_query_to_sql_cases [of s g] by (auto simp: module_globals_def)

theorem parse_query_to_sql_total_witness:
  "\<exists>stmt table. fst (parse_query_to_sql [] module_globals) = (stmt, table) \<and> stmt \<noteq> [] \<and>
     (table = ''sales'' \<or> table = ''customers'') \<and>
     table \<in> set (map fst (mock_responses module_globals)) \<and>
     table \<in> set (map fst (mock_db module_globals))"
  using parse_query_to_sql_total [of "[]" module_globals] by simp

text \<open>
  C2. When the lower-cased input contains neither \<open>sales\<close> nor \<open>customer\<close>, or contains
  \<open>sales\<close> and none of \<open>by region\<close>, \<open>total\<close>, \<open>by product\<close>, or contains \<open>customer\<close>,
  not \<open>sales\<close>, and none of \<open>count\<close>, \<open>new\<close>, \<open>recent\<close>, the classifier returns the
  default statement \<open>SELECT * FROM sales\<close> with the table \<open>sales\<close>.
\<close>

theorem parse_query_to_sql_default:
  assumes "(\<not> py_in ''sales'' (lower s) \<and> \<not> py_in ''customer'' (lower s))
         \<or> (py_in ''sales'' (lower s) \<and> \<not> py_in ''by region'' (lower s)
              \<and> \<not> py_in ''total'' (lower s) \<and> \<not> py_in ''by product'' (lower s))
         \<or> (py_in ''customer'' (lower s) \<and> \<not> py_in ''sales'' (lower s)
              \<and> \<not> py_in ''count'' (lower s) \<and> \<not> py_in ''new'' (lower s)
              \<and> \<not> py_in ''recent'' (lower s))"
  shows "fst (parse_query_to_sql s g) = (''SELECT * FROM sales'', ''sales'')"
  using assms customers_has_customer [of "lower s"]
  by (auto simp: parse_query_to_sql_def Let_def)

theorem parse_query_to_sql_default_witness:
  "fst (parse_query_to_sql ''Hello World'' module_globals) = (''SELECT * FROM sales'', ''sales'')
   \<and> fst (parse_query_to_sql ''SALES report'' module_globals) = (''SELECT * FROM sales'', ''sales'')
   \<and> fst (parse_query_to_sql ''list every Customer'' module_globals)
       = (''SELECT * FROM sales'', ''sales'')"
proof -
  have h1: "\<not> py_in ''sales'' (lower ''Hello World'') \<and> \<not> py_in ''customer'' (lower ''Hello World'')"
    by (simp add: lower_eval)
  have h2: "py_in ''sales'' (lower ''SALES report'') \<and> \<not> py_in ''by region'' (lower ''SALES report'')
      \<and> \<not> py_in ''total'' (lower ''SALES report'') \<and> \<not> py_in ''by product'' (lower ''SALES report'')"
    by (simp add: lower_eval)
  have h3: "py_in ''customer'' (lower ''list every Customer'')
      \<and> \<not> py_in ''sales'' (lower ''list every Customer'')
      \<and> \<not> py_in ''count'' (lower ''list every Customer'')
      \<and> \<not> py_in ''new'' (lower ''list every Customer'')
      \<and> \<not> py_in ''recent'' (lower ''list every Customer'')"
    by (simp add: lower_eval)
  have r1: "fst (parse_query_to_sql ''Hello World'' module_globals) = (''SELECT * FROM sales'', ''sales'')"
    by (rule parse_query_to_sql_default) (use h1 in blast)
  have r2: "fst (parse_query_to_sql ''SALES report'' module_globals) = (''SELECT * FROM sales'', ''sales'')"
    by (rule parse_query_to_sql_default) (use h2 in blast)
  have r3: "fst (parse_query_to_sql ''list every Customer'' module_globals)
       = (''SELECT * FROM sales'', ''sales'')"
    by (rule parse_query_to_sql_default) (use h3 in blast)
  from r1 r2 r3 show ?thesis by blast
qed

text \<open>
  C5. When the lower-cased input contains \<open>sales\<close> and \<open>by region\<close>, whatever its casing
  and whatever else it contains, the classifier returns the region aggregation on the table
  \<open>sales\<close>.
\<close>

theorem parse_query_to_sql_by_region:
  assumes "py_in ''sales'' (lower s)" and "py_in ''by region'' (lower s)"
  shows "fst (parse_query_to_sql s g)
           = (''SELECT region, SUM(amount) FROM sales GROUP BY region'', ''sales'')"
  using assms by (simp add: parse_query_to_sql_def)

theorem parse_query_to_sql_by_region_witness:
  "fst (parse_query_to_sql ''Total SALES By Region and by product'' module_globals)
     = (''SELECT region, SUM(amount) FROM sales GROUP BY region'', ''sales'')"
proof -
  have h1: "py_in ''sales'' (lower ''Total SALES By Region and by product'')"
    by (simp add: lower_eval)
  have h2: "py_in ''by region'' (lower ''Total SALES By Region and by product'')"
    by (simp add: lower_eval)
  show ?thesis
    by (rule parse_query_to_sql_by_region [OF h1 h2])
qed

text \<open>
  C7. The classifier returns the process state as it received it, its result does not
  depend on that state, and a second evaluation on the same string, run in the state the
  first one left, gives the same result and leaves the state as it was at the start.
\<close>

theorem parse_query_to_sql_pure:
  "snd (parse_query_to_sql s g) = g
   \<and> fst (parse_query_to_sql s g) = fst (parse_query_to_sql s g')
   \<and> (case parse_query_to_sql s g of
         (r1, g1) \<Rightarrow> (case parse_query_to_sql s g1 of (r2, g2) \<Rightarrow> r1 = r2 \<and> g2 = g))"
proof -
  have st: "\<And>h. snd (parse_query_to_sql s h) = h"
    by (rule parse_query_to_sql_state)
  have ind: "\<And>h h'. fst (parse_query_to_sql s h) = fst (parse_query_to_sql s h')"
    by (simp add: parse_query_to_sql_def Let_def split: option.split)
  have "parse_query_to_sql s g = (fst (parse_query_to_sql s g), g)"
    using st [of g] by (simp add: prod_eq_iff)
  then show ?thesis
    using st [of g] ind [of g g'] by (simp add: split_beta)
qed

theorem parse_query_to_sql_pure_witness:
  "snd (parse_query_to_sql ''total sales'' module_globals) = module_globals
   \<and> fst (parse_query_to_sql ''total sales'' module_globals)
       = fst (parse_query_to_sql ''total sales'' \<lparr>mock_db = [], mock_responses = []\<rparr>)"
  using parse_query_to_sql_pure [of "''total sales''" module_globals "\<lparr>mock_db = [], mock_responses = []\<rparr>"]
  by simp

text \<open>
  C8. Classification does not depend on the casing of the input: the classifier gives the
  same result on a string and on its lower-cased form, lower-casing being the first thing
  it does and lower-casing twice being lower-casing once.
\<close>

theorem parse_query_to_sql_lower:
  "parse_query_to_sql (lower s) g = parse_query_to_sql s g"
  by (simp add: parse_query_to_sql_def lower_idem)

theorem parse_query_to_sql_lower_witness:
  "parse_query_to_sql (lower ''Sales BY Region'') module_globals
     = parse_query_to_sql ''Sales BY Region'' module_globals"
  using parse_query_to_sql_lower [of "''Sales BY Region''" module_globals] by simp

section \<open>The handlers and the process state\<close>

lemma process_query_state: "snd (process_query r a g) = g"
  using parse_query_to_sql_state [of "QueryRequest.query r" g]
  by (simp add: process_query_def split_beta)

lemma explain_query_state: "snd (explain_query r a g) = g"
  using parse_query_to_sql_state [of "QueryRequest.query r" g]
  by (simp add: explain_query_def split_beta split: option.split)

lemma validate_query_state: "snd (validate_query r a g) = g"
  by (simp add: validate_query_def Let_def)

lemma verify_credentials_admin:
  "verify_credentials \<lparr>username = ''admin'', password = ''secret123''\<rparr> = Inr True"
  by (simp add: verify_credentials_def)

lemma is_space_lower_char: "is_space (lower_char c) = is_space c"
  by (auto simp: lower_char_def is_upper_def is_space_def Let_def)

lemma spaces_lower: "list_all is_space (lower s) = list_all is_space s"
  by (induction s) (simp_all add: lower_def is_space_lower_char)

lemma validate_query_is_valid:
  "is_valid (fst (validate_query r a module_globals)) \<longleftrightarrow>
     \<not> list_all is_space (QueryRequest.query r)
     \<and> (py_in ''sales'' (lower (QueryRequest.query r))
        \<or> py_in ''customers'' (lower (QueryRequest.query r)))"
  by (simp add: validate_query_def Let_def strip_empty_iff spaces_lower module_globals_def)

section \<open>The credentials gate\<close>

text \<open>
  C9. \<open>verify_credentials\<close> returns \<open>True\<close> exactly when the user name is \<open>admin\<close> and
  the password is \<open>secret123\<close>; on any other pair it raises the 401 exception, which is
  then the response of \<open>/query\<close>, \<open>/explain\<close> and \<open>/validate\<close>, and with the right pair
  these routes run their handlers. \<open>/health\<close> takes no credentials and answers
  \<open>{status: healthy}\<close>.
\<close>

theorem verify_credentials_gate:
  "(verify_credentials c = Inr True \<longleftrightarrow> username c = ''admin'' \<and> password c = ''secret123'')
   \<and> (\<not> (username c = ''admin'' \<and> password c = ''secret123'') \<longrightarrow>
        verify_credentials c = Inl (HTTPException 401 ''Invalid credentials'')
        \<and> route_query c r g = (Inl (HTTPException 401 ''Invalid credentials''), g)
        \<and> route_explain c r g = (Inl (HTTPException 401 ''Invalid credentials''), g)
        \<and> route_validate c r g = (Inl (HTTPException 401 ''Invalid credentials''), g))
   \<and> (username c = ''admin'' \<and> password c = ''secret123'' \<longrightarrow>
        route_query c r g = process_query r True g
        \<and> route_explain c r g = explain_query r True g
        \<and> route_validate c r g = (Inr (fst (validate_query r True g)), g))
   \<and> route_health g = ([(''status'', ''healthy'')], g)"
proof -
  have v: "verify_credentials c =
      (if username c = ''admin'' \<and> password c = ''secret123'' then Inr True
       else Inl (HTTPException 401 ''Invalid credentials''))"
    by (simp add: verify_credentials_def)
  have q: "route_validate c r g =
      (case verify_credentials c of Inl e \<Rightarrow> (Inl e, g)
       | Inr auth \<Rightarrow> (Inr (fst (validate_query r auth g)), g))"
    using validate_query_state [of r _ g]
    by (simp add: route_validate_def split_beta split: sum.split)
  show ?thesis
    by (simp add: v q route_query_def route_explain_def route_health_def health_check_def)
qed

theorem verify_credentials_gate_witness:
  "verify_credentials \<lparr>username = ''admin'', password = ''secret123''\<rparr> = Inr True
   \<and> verify_credentials \<lparr>username = ''admin'', password = ''Secret123''\<rparr>
       = Inl (HTTPException 401 ''Invalid credentials'')
   \<and> route_query \<lparr>username = ''admin'', password = ''Secret123''\<rparr>
         \<lparr>QueryRequest.query = ''total sales''\<rparr> module_globals
       = (Inl (HTTPException 401 ''Invalid credentials''), module_globals)
   \<and> route_query \<lparr>username = ''admin'', password = ''secret123''\<rparr>
         \<lparr>QueryRequest.query = ''total sales''\<rparr> module_globals
       = process_query \<lparr>QueryRequest.query = ''total sales''\<rparr> True module_globals"
  using
    verify_credentials_gate [of "\<lparr>username = ''admin'', password = ''secret123''\<rparr>"
      "\<lparr>QueryRequest.query = ''total sales''\<rparr>" module_globals]
    verify_credentials_gate [of "\<lparr>username = ''admin'', password = ''Secret123''\<rparr>"
      "\<lparr>QueryRequest.query = ''total sales''\<rparr>" module_globals]
  by simp

section \<open>The query route\<close>

text \<open>
  C10. On every call of \<open>/query\<close> that passes authentication, the table the classifier
  returns is a key of \<open>mock_responses\<close>: the \<open>results\<close> field is the entry of that table,
  which has two records, so the empty default of \<open>get\<close> is never used. The call leaves the
  dictionaries as they were, so this holds of every later call as well.
\<close>

theorem route_query_results:
  assumes "verify_credentials c = Inr True"
  shows "\<exists>resp. route_query c r module_globals = (Inr resp, module_globals)
           \<and> map_of (mock_responses module_globals)
                (snd (fst (parse_query_to_sql (QueryRequest.query r) module_globals)))
               = Some (results resp)
           \<and> length (results resp) = 2 \<and> results resp \<noteq> []"
proof -
  let ?p = "parse_query_to_sql (QueryRequest.query r) module_globals"
  have p: "?p = (fst ?p, module_globals)"
    using parse_query_to_sql_state [of "QueryRequest.query r" module_globals]
    by (simp add: prod_eq_iff)
  have t: "snd (fst ?p) = ''sales'' \<or> snd (fst ?p) = ''customers''"
    using parse_query_to_sql_cases [of "QueryRequest.query r" module_globals] by auto
  have m: "map_of (mock_responses module_globals) ''sales'' = Some sales_rows"
    "map_of (mock_responses module_globals) ''customers'' = Some customers_rows"
    by (simp_all add: module_globals_def)
  have l: "length sales_rows = 2" "length customers_rows = 2"
    by (simp_all add: sales_rows_def customers_rows_def)
  have "route_query c r module_globals = process_query r True module_globals"
    using assms by (simp add: route_query_def)
  also have "\<dots> = (Inr \<lparr>QueryResponse.original_query = QueryRequest.query r,
                         QueryResponse.translated_sql = fst (fst ?p),
                         results = (case map_of (mock_responses module_globals) (snd (fst ?p)) of
                                      Some rows \<Rightarrow> rows | None \<Rightarrow> [])\<rparr>, module_globals)"
    by (subst process_query_def, subst p) (simp add: split_beta)
  finally show ?thesis
    using t m l by auto
qed

theorem route_query_results_witness:
  "\<exists>resp. route_query \<lparr>username = ''admin'', password = ''secret123''\<rparr>
             \<lparr>QueryRequest.query = ''what is new''\<rparr> module_globals = (Inr resp, module_globals)
           \<and> map_of (mock_responses module_globals)
                (snd (fst (parse_query_to_sql ''what is new'' module_globals)))
               = Some (results resp)
           \<and> length (results resp) = 2 \<and> results resp \<noteq> []"
  using route_query_results [OF verify_credentials_admin, of "\<lparr>QueryRequest.query = ''what is new''\<rparr>"]
  by simp

section \<open>The validate route\<close>

text \<open>
  C6. \<open>/validate\<close> answers a query of white space only, the empty query included, with
  \<open>is_valid = False\<close> and the message \<open>Query cannot be empty\<close>, whatever the table names
  are (the emptiness test comes first); it answers \<open>xyz abc\<close> with \<open>is_valid = False\<close> and
  \<open>No valid table reference found\<close>, and \<open>sales report\<close> with \<open>is_valid = True\<close>.
\<close>

theorem route_validate_examples:
  "(list_all is_space s \<longrightarrow>
      fst (route_validate \<lparr>username = ''admin'', password = ''secret123''\<rparr>
             \<lparr>QueryRequest.query = s\<rparr> g)
        = Inr \<lparr>ValidateResponse.query = s, is_valid = False,
               message = ''Query cannot be empty''\<rparr>)
   \<and> fst (route_validate \<lparr>username = ''admin'', password = ''secret123''\<rparr>
             \<lparr>QueryRequest.query = []\<rparr> g)
        = Inr \<lparr>ValidateResponse.query = [], is_valid = False,
               message = ''Query cannot be empty''\<rparr>
   \<and> fst (route_validate \<lparr>username = ''admin'', password = ''secret123''\<rparr>
             \<lparr>QueryRequest.query = ''xyz abc''\<rparr> module_globals)
        = Inr \<lparr>ValidateResponse.query = ''xyz abc'', is_valid = False,
               message = ''No valid table reference found''\<rparr>
   \<and> fst (route_validate \<lparr>username = ''admin'', password = ''secret123''\<rparr>
             \<lparr>QueryRequest.query = ''sales report''\<rparr> module_globals)
        = Inr \<lparr>ValidateResponse.query = ''sales report'', is_valid = True,
               message = ''Query appears valid''\<rparr>"
proof -
  have e: "list_all is_space s \<Longrightarrow>
      fst (route_validate \<lparr>username = ''admin'', password = ''secret123''\<rparr>
             \<lparr>QueryRequest.query = s\<rparr> g)
        = Inr \<lparr>ValidateResponse.query = s, is_valid = False,
               message = ''Query cannot be empty''\<rparr>" for s
    by (simp add: route_validate_def verify_credentials_admin validate_query_def Let_def
          strip_empty_iff spaces_lower)
  have x: "fst (route_validate \<lparr>username = ''admin'', password = ''secret123''\<rparr>
             \<lparr>QueryRequest.query = ''xyz abc''\<rparr> module_globals)
        = Inr \<lparr>ValidateResponse.query = ''xyz abc'', is_valid = False,
               message = ''No valid table reference found''\<rparr>"
    by (simp add: route_validate_def verify_credentials_admin validate_query_def Let_def
          strip_def is_space_def lower_eval module_globals_def)
  have r: "fst (route_validate \<lparr>username = ''admin'', password = ''secret123''\<rparr>
             \<lparr>QueryRequest.query = ''sales report''\<rparr> module_globals)
        = Inr \<lparr>ValidateResponse.query = ''sales report'', is_valid = True,
               message = ''Query appears valid''\<rparr>"
    by (simp add: route_validate_def verify_credentials_admin validate_query_def Let_def
          strip_def is_space_def lower_eval module_globals_def)
  show ?thesis
    using e [of s] e [of "[]"] x r by simp
qed

theorem route_validate_examples_witness:
  "fst (route_validate \<lparr>username = ''admin'', password = ''secret123''\<rparr>
          \<lparr>QueryRequest.query = [CHR '' '', CHR 0x09, CHR 0x0A]\<rparr> module_globals)
     = Inr \<lparr>ValidateResponse.query = [CHR '' '', CHR 0x09, CHR 0x0A], is_valid = False,
            message = ''Query cannot be empty''\<rparr>"
proof -
  have h: "list_all is_space [CHR '' '', CHR 0x09, CHR 0x0A]"
    by (simp add: is_space_def)
  from route_validate_examples [of "[CHR '' '', CHR 0x09, CHR 0x0A]" module_globals] h
  show ?thesis by blast
qed

text \<open>
  C4. The query \<open>customer count\<close> is not empty and contains \<open>customer\<close>, the word on
  which the classifier selects the table \<open>customers\<close>; \<open>/validate\<close> looks for the keys of
  \<open>mock_db\<close> only and answers it with \<open>is_valid = False\<close>.
\<close>

theorem route_validate_customer_count:
  "fst (route_validate \<lparr>username = ''admin'', password = ''secret123''\<rparr>
          \<lparr>QueryRequest.query = ''customer count''\<rparr> module_globals)
     = Inr \<lparr>ValidateResponse.query = ''customer count'', is_valid = False,
            message = ''No valid table reference found''\<rparr>
   \<and> py_in ''customer'' (lower ''customer count'')
   \<and> fst (parse_query_to_sql ''customer count'' module_globals)
       = (''SELECT COUNT(*) FROM customers'', ''customers'')"
  by (simp add: route_validate_def verify_credentials_admin validate_query_def Let_def
        strip_def is_space_def lower_eval module_globals_def parse_query_to_sql_def)

section \<open>The explain route\<close>

text \<open>
  C3. For the query \<open>customer count\<close> the generated statement is
  \<open>SELECT COUNT(*) FROM customers\<close>, which contains the aggregate \<open>COUNT\<close>; \<open>/explain\<close>
  tests the statement for \<open>SUM\<close> only and reports the query type \<open>selection\<close>.
\<close>

theorem route_explain_customer_count:
  "fst (route_explain \<lparr>username = ''admin'', password = ''secret123''\<rparr>
          \<lparr>QueryRequest.query = ''customer count''\<rparr> module_globals)
     = Inr \<lparr>ExplainResponse.original_query = ''customer count'',
            breakdown =
              [(''detected_table'', PStr ''customers''),
               (''query_type'', PStr ''selection''),
               (''columns'',
                  PList [PStr ''id'', PStr ''name'', PStr ''email'', PStr ''signup_date''])],
            ExplainResponse.translated_sql = ''SELECT COUNT(*) FROM customers''\<rparr>
   \<and> py_in ''COUNT'' ''SELECT COUNT(*) FROM customers''"
  by (simp add: route_explain_def verify_credentials_admin explain_query_def Let_def
        lower_eval module_globals_def parse_query_to_sql_def)

end
